theory Spec2Isabelle
  imports Main "HOL-Library.Word"
begin

section \<open>Go strings and the library functions the bot calls\<close>

text \<open>
  A Go string is a sequence of bytes, here a \<^typ>\<open>string\<close>. A chat identifier is an
  \<open>int64\<close>, read as two's complement by \<^const>\<open>sint\<close>.
\<close>

type_synonym int64 = "64 word"

definition digit :: "nat \<Rightarrow> char" where
  "digit d = ''0123456789'' ! d"

fun nat_dec :: "nat \<Rightarrow> string" where
  "nat_dec n = (if n < 10 then [digit n] else nat_dec (n div 10) @ [digit (n mod 10)])"

declare nat_dec.simps [simp del]

text \<open>\<open>fmt.Sprintf("%d", chatID)\<close>: the decimal digits, after a minus sign below zero.\<close>

definition fmt_d :: "int64 \<Rightarrow> string" where
  "fmt_d chatID =
     (if sint chatID < 0 then CHR ''-'' # nat_dec (nat (- sint chatID))
      else nat_dec (nat (sint chatID)))"

text \<open>\<open>strings.HasPrefix(s, prefix)\<close>.\<close>

definition HasPrefix :: "string \<Rightarrow> string \<Rightarrow> bool" where
  "HasPrefix s p = (length p \<le> length s \<and> take (length p) s = p)"

text \<open>
  \<open>strings.ReplaceAll(s, old, new)\<close> for a non-empty \<open>old\<close>: every non-overlapping
  occurrence of \<open>old\<close>, found from the left, becomes \<open>new\<close>. (For an empty \<open>old\<close> Go puts
  \<open>new\<close> around every rune; the bot never passes one, and with the empty \<open>new\<close> it passes
  the result would be \<open>s\<close>, which is what this function returns.)
\<close>

fun ReplaceAll :: "string \<Rightarrow> string \<Rightarrow> string \<Rightarrow> string" where
  "ReplaceAll [] old new = []"
| "ReplaceAll (c # cs) old new =
     (if old \<noteq> [] \<and> HasPrefix (c # cs) old
      then new @ ReplaceAll (drop (length old - 1) cs) old new
      else c # ReplaceAll cs old new)"

text \<open>\<open>strings.Index(s, " ")\<close>: the position of the first space, \<open>None\<close> for \<open>-1\<close>.\<close>

fun Index_space :: "string \<Rightarrow> nat option" where
  "Index_space [] = None"
| "Index_space (c # cs) =
     (if c = CHR '' '' then Some 0
      else (case Index_space cs of None \<Rightarrow> None | Some i \<Rightarrow> Some (Suc i)))"

text \<open>
  \<open>strings.ToLower\<close> on the ASCII letters; every other byte is kept. (Go also maps the
  upper-case letters beyond ASCII, which this model leaves as they are.)
\<close>

definition lower_byte :: "char \<Rightarrow> char" where
  "lower_byte c =
     (case map_of (zip ''ABCDEFGHIJKLMNOPQRSTUVWXYZ'' ''abcdefghijklmnopqrstuvwxyz'') c of
        None \<Rightarrow> c
      | Some l \<Rightarrow> l)"

definition ToLower :: "string \<Rightarrow> string" where
  "ToLower s = map lower_byte s"

section \<open>The key-value store\<close>

text \<open>
  The engine (go.etcd.io/bbolt) is not part of the repository. A bucket is modelled by
  its contents as a cursor walks them: the key/value pairs in ascending byte order of
  their keys. \<open>Get\<close> finds a key or returns nil; \<open>Put\<close> refuses an empty key, a key
  above 32768 bytes and a value above \<open>2^31 - 2\<close> bytes, and otherwise replaces the
  value of a key or inserts the pair at its place; \<open>Delete\<close> removes a key and does not
  fail in a writable transaction on a bucket without nested buckets. A transaction
  whose function returns an error is rolled back.
\<close>

type_synonym bucket = "(string \<times> string) list"

datatype bolt_error = ErrKeyRequired | ErrKeyTooLarge | ErrValueTooLarge

definition MaxKeySize :: nat where
  "MaxKeySize = 32768"

definition MaxValueSize :: nat where
  "MaxValueSize = 2147483646"

fun bytes_less :: "string \<Rightarrow> string \<Rightarrow> bool" where
  "bytes_less [] [] = False"
| "bytes_less [] (y # ys) = True"
| "bytes_less (x # xs) [] = False"
| "bytes_less (x # xs) (y # ys) =
     ((of_char x :: nat) < of_char y \<or> (x = y \<and> bytes_less xs ys))"

fun insert_key :: "string \<Rightarrow> string \<Rightarrow> bucket \<Rightarrow> bucket" where
  "insert_key k v [] = [(k, v)]"
| "insert_key k v ((k', v') # rest) =
     (if k = k' then (k, v) # rest
      else if bytes_less k k' then (k, v) # (k', v') # rest
      else (k', v') # insert_key k v rest)"

definition bucket_Get :: "bucket \<Rightarrow> string \<Rightarrow> string option" where
  "bucket_Get b k = map_of b k"

definition bucket_Put :: "bucket \<Rightarrow> string \<Rightarrow> string \<Rightarrow> bolt_error + bucket" where
  "bucket_Put b k v =
     (if length k = 0 then Inl ErrKeyRequired
      else if length k > MaxKeySize then Inl ErrKeyTooLarge
      else if length v > MaxValueSize then Inl ErrValueTooLarge
      else Inr (insert_key k v b))"

definition bucket_Delete :: "bucket \<Rightarrow> string \<Rightarrow> bolt_error + bucket" where
  "bucket_Delete b k = Inr (filter (\<lambda>kv. fst kv \<noteq> k) b)"

text \<open>The database: the bucket of registrants and the bucket of words.\<close>

record db =
  telegram :: bucket
  kquiz :: bucket

section \<open>Package telegram: the word repository\<close>

datatype error =
  ErrAlreadyRegistered | ErrNotRegistered | ErrDatabaseError | ErrDuplicateWord | ErrWordNotFound

fun Error :: "error \<Rightarrow> string" where
  "Error ErrAlreadyRegistered = ''already registered''"
| "Error ErrNotRegistered = ''not yet registered''"
| "Error ErrDatabaseError = ''database error''"
| "Error ErrDuplicateWord = ''duplicate word''"
| "Error ErrWordNotFound = ''word not found''"

definition IsRegistered :: "int64 \<Rightarrow> db \<Rightarrow> bool" where
  "IsRegistered chatID d = (bucket_Get (telegram d) (fmt_d chatID) \<noteq> None)"

definition IsAdded :: "int64 \<Rightarrow> string \<Rightarrow> db \<Rightarrow> bool" where
  "IsAdded chatID word d = (bucket_Get (kquiz d) (fmt_d chatID @ word) \<noteq> None)"

text \<open>
  An operation that writes returns the error (\<open>None\<close> for Go's nil) and the database
  it leaves.
\<close>

definition Register :: "int64 \<Rightarrow> db \<Rightarrow> error option \<times> db" where
  "Register chatID d =
     (if IsRegistered chatID d then (Some ErrAlreadyRegistered, d)
      else (case bucket_Put (telegram d) (fmt_d chatID) (fmt_d chatID) of
              Inl err \<Rightarrow> (Some ErrDatabaseError, d)
            | Inr b \<Rightarrow> (None, d\<lparr>telegram := b\<rparr>)))"

definition Unregister :: "int64 \<Rightarrow> db \<Rightarrow> error option \<times> db" where
  "Unregister chatID d =
     (if \<not> IsRegistered chatID d then (Some ErrNotRegistered, d)
      else (case bucket_Delete (telegram d) (fmt_d chatID) of
              Inl err \<Rightarrow> (Some ErrDatabaseError, d)
            | Inr b \<Rightarrow> (None, d\<lparr>telegram := b\<rparr>)))"

definition Add :: "int64 \<Rightarrow> string \<Rightarrow> string \<Rightarrow> db \<Rightarrow> error option \<times> db" where
  "Add chatID word translation d =
     (if \<not> IsRegistered chatID d then (Some ErrNotRegistered, d)
      else if IsAdded chatID word d then (Some ErrDuplicateWord, d)
      else (case bucket_Put (kquiz d) (fmt_d chatID @ word) translation of
              Inl err \<Rightarrow> (Some ErrDatabaseError, d)
            | Inr b \<Rightarrow> (None, d\<lparr>kquiz := b\<rparr>)))"

definition Search :: "int64 \<Rightarrow> string \<Rightarrow> db \<Rightarrow> error + string" where
  "Search chatID word d =
     (if \<not> IsRegistered chatID d then Inl ErrNotRegistered
      else (case bucket_Get (kquiz d) (fmt_d chatID @ word) of
              None \<Rightarrow> Inl ErrWordNotFound
            | Some translation \<Rightarrow> Inr translation))"

definition Delete :: "int64 \<Rightarrow> string \<Rightarrow> db \<Rightarrow> error option \<times> db" where
  "Delete chatID word d =
     (if \<not> IsRegistered chatID d then (Some ErrNotRegistered, d)
      else if \<not> IsAdded chatID word d then (Some ErrWordNotFound, d)
      else (case bucket_Delete (kquiz d) (fmt_d chatID @ word) of
              Inl err \<Rightarrow> (Some ErrDatabaseError, d)
            | Inr b \<Rightarrow> (None, d\<lparr>kquiz := b\<rparr>)))"

text \<open>
  The cursor loop of \<open>Clear\<close> over the pairs still ahead of the cursor: a key without
  the prefix is skipped, any other is deleted (\<open>cursor.Delete\<close> fails only on a nested
  bucket, and the bucket has none). The cursor is taken to reach every pair once, also
  after a delete. The result is what the bucket keeps.
\<close>

fun Clear_loop :: "string \<Rightarrow> bucket \<Rightarrow> bolt_error + bucket" where
  "Clear_loop chatIDStr [] = Inr []"
| "Clear_loop chatIDStr ((key, val) # rest) =
     (if \<not> HasPrefix key chatIDStr
      then (case Clear_loop chatIDStr rest of
              Inl err \<Rightarrow> Inl err
            | Inr kept \<Rightarrow> Inr ((key, val) # kept))
      else Clear_loop chatIDStr rest)"

definition Clear :: "int64 \<Rightarrow> db \<Rightarrow> error option \<times> db" where
  "Clear chatID d =
     (if \<not> IsRegistered chatID d then (Some ErrNotRegistered, d)
      else (case Clear_loop (fmt_d chatID) (kquiz d) of
              Inl err \<Rightarrow> (Some ErrDatabaseError, d)
            | Inr b \<Rightarrow> (None, d\<lparr>kquiz := b\<rparr>)))"

text \<open>
  The cursor loop of \<open>List\<close>, with \<open>wordMap\<close> as its accumulator. A pair of
  \<open>wordMap\<close> is the two-element slice \<open>[koreanWord, translation]\<close>.
\<close>

fun List_loop :: "string \<Rightarrow> bucket \<Rightarrow> (string \<times> string) list \<Rightarrow> (string \<times> string) list" where
  "List_loop chatIDStr [] wordMap = wordMap"
| "List_loop chatIDStr ((key, val) # rest) wordMap =
     (if \<not> HasPrefix key chatIDStr then List_loop chatIDStr rest wordMap
      else List_loop chatIDStr rest (wordMap @ [(ReplaceAll key chatIDStr [], val)]))"

definition List :: "int64 \<Rightarrow> db \<Rightarrow> error + (string \<times> string) list" where
  "List chatID d =
     (if \<not> IsRegistered chatID d then Inl ErrNotRegistered
      else (let wordMap = List_loop (fmt_d chatID) (kquiz d) []
            in if length wordMap = 0 then Inl ErrWordNotFound else Inr wordMap))"

text \<open>
  \<open>rand.Intn(n)\<close> panics for \<open>n \<le> 0\<close> and otherwise returns a number below \<open>n\<close>. The
  generator is seeded from the clock: its next output is the parameter \<open>r\<close>, brought
  into the range. \<open>None\<close> is the panic.
\<close>

definition Intn :: "nat \<Rightarrow> nat \<Rightarrow> nat option" where
  "Intn r n = (if n = 0 then None else Some (r mod n))"

text \<open>\<open>Random\<close>: \<open>None\<close> when the call panics (in \<open>rand.Intn\<close> or at \<open>items[idx]\<close>).\<close>

definition Random :: "nat \<Rightarrow> int64 \<Rightarrow> db \<Rightarrow> (error + string \<times> string) option" where
  "Random r chatID d =
     (if \<not> IsRegistered chatID d then Some (Inl ErrNotRegistered)
      else (case List chatID d of
              Inl err \<Rightarrow> Some (Inl err)
            | Inr items \<Rightarrow>
                (case Intn r (length items) of
                   None \<Rightarrow> None
                 | Some idx \<Rightarrow> if idx < length items then Some (Inr (items ! idx)) else None)))"

section \<open>Package main: the update loop\<close>

text \<open>
  What the loop does to the outside: a message handed to \<open>tgBot.Send\<close>, or the log
  line written when a message is no command and no answer is pending. (The transport
  is external: a failed send is logged and changes nothing else. The trace line at the
  head of the loop and the repository's own log lines are left out.)
\<close>

datatype event = Sent int64 string | Logged string

text \<open>The state between two updates: the database and the map \<open>currRandomWord\<close>.\<close>

record bot =
  database :: db
  currRandomWord :: "int64 \<rightharpoonup> string"

definition registerUser :: "int64 \<Rightarrow> db \<Rightarrow> db \<times> event list" where
  "registerUser chatID d =
     (case Register chatID d of
        (Some err, d') \<Rightarrow> (d', [Sent chatID (''Registration failed. '' @ Error err @ ''.'')])
      | (None, d') \<Rightarrow> (d', [Sent chatID ''Thanks for your registration.'']))"

definition unregisterUser :: "int64 \<Rightarrow> db \<Rightarrow> db \<times> event list" where
  "unregisterUser chatID d =
     (case Unregister chatID d of
        (Some err, d') \<Rightarrow> (d', [Sent chatID (''Unregistration failed. '' @ Error err @ ''.'')])
      | (None, d') \<Rightarrow>
          (d', [Sent chatID
             ''You have been successfully unregistered. You will not receive any future updates.'']))"

definition addWord :: "int64 \<Rightarrow> string \<Rightarrow> string \<Rightarrow> db \<Rightarrow> db \<times> event list" where
  "addWord chatID word translation d =
     (case Add chatID word translation d of
        (Some err, d') \<Rightarrow> (d', [Sent chatID (''Add word failed. '' @ Error err @ ''.'')])
      | (None, d') \<Rightarrow>
          (d', [Sent chatID
             (''New word successfully added. '' @ word @ '' -> '' @ translation @ ''.'')]))"

definition searchWord :: "int64 \<Rightarrow> string \<Rightarrow> db \<Rightarrow> event list" where
  "searchWord chatID word d =
     (case Search chatID word d of
        Inl err \<Rightarrow> [Sent chatID (''Search word failed. '' @ Error err @ ''.'')]
      | Inr translation \<Rightarrow> [Sent chatID (word @ '' -> '' @ translation @ ''.'')])"

text \<open>\<open>randomWord\<close> returns the pair, or \<open>None\<close> for Go's nil slice, and what it sent.\<close>

definition randomWord :: "nat \<Rightarrow> int64 \<Rightarrow> db \<Rightarrow> ((string \<times> string) option \<times> event list) option" where
  "randomWord r chatID d =
     (case Random r chatID d of
        None \<Rightarrow> None
      | Some (Inl err) \<Rightarrow> Some (None, [Sent chatID (''Get random word failed. '' @ Error err @ ''.'')])
      | Some (Inr words) \<Rightarrow>
          Some (Some words, [Sent chatID (''What is translation for: '' @ fst words)]))"

definition deleteWord :: "int64 \<Rightarrow> string \<Rightarrow> db \<Rightarrow> db \<times> event list" where
  "deleteWord chatID word d =
     (case Delete chatID word d of
        (Some err, d') \<Rightarrow> (d', [Sent chatID (''Delete word failed. '' @ Error err @ ''.'')])
      | (None, d') \<Rightarrow> (d', [Sent chatID (word @ '' deleted.'')]))"

definition clearWords :: "int64 \<Rightarrow> db \<Rightarrow> db \<times> event list" where
  "clearWords chatID d =
     (case Clear chatID d of
        (Some err, d') \<Rightarrow> (d', [Sent chatID (''Clear words failed. '' @ Error err @ ''.'')])
      | (None, d') \<Rightarrow> (d', [Sent chatID ''Words cleared.'']))"

definition listWords :: "int64 \<Rightarrow> db \<Rightarrow> event list" where
  "listWords chatID d =
     (case List chatID d of
        Inl err \<Rightarrow> [Sent chatID (''List words failed. '' @ Error err @ ''.'')]
      | Inr words \<Rightarrow> map (\<lambda>pairs. Sent chatID (fst pairs @ '' -> '' @ snd pairs)) words)"

text \<open>
  The head of the loop body: the text before the first space is the message, the text
  after it the argument.
\<close>

definition split_message :: "string \<Rightarrow> string \<times> string" where
  "split_message text =
     (case Index_space text of
        None \<Rightarrow> (text, [])
      | Some spaceIndex \<Rightarrow> (take spaceIndex text, drop (spaceIndex + 1) text))"

text \<open>\<open>strings.SplitN(s, " ", 2)\<close>.\<close>

definition SplitN2 :: "string \<Rightarrow> string list" where
  "SplitN2 s =
     (case Index_space s of
        None \<Rightarrow> [s]
      | Some i \<Rightarrow> [take i s, drop (i + 1) s])"

text \<open>
  One turn of the loop for an update that carries a message: \<open>r\<close> is what the random
  generator yields in this turn, \<open>None\<close> is a panic of the goroutine.
\<close>

definition handle_update :: "nat \<Rightarrow> int64 \<Rightarrow> string \<Rightarrow> bot \<Rightarrow> (bot \<times> event list) option" where
  "handle_update r chatID text st =
     (let message = fst (split_message text); argument = snd (split_message text) in
      if message = ''/start'' \<or> message = ''/register'' then
        Some (st\<lparr>database := fst (registerUser chatID (database st))\<rparr>,
              snd (registerUser chatID (database st)))
      else if message = ''/stop'' \<or> message = ''/unregister'' then
        Some (st\<lparr>database := fst (unregisterUser chatID (database st))\<rparr>,
              snd (unregisterUser chatID (database st)))
      else if message = ''/add'' then
        (if length argument = 0 \<or> Index_space argument = None
         then Some (st, [Sent chatID ''Please provide the Korean word and its translation.''])
         else (case SplitN2 argument of
                 word # translation # others \<Rightarrow>
                   Some (st\<lparr>database := fst (addWord chatID word translation (database st))\<rparr>,
                         snd (addWord chatID word translation (database st)))
               | _ \<Rightarrow> None))
      else if message = ''/search'' then
        (if length argument = 0 then Some (st, [Sent chatID ''Please provide the Korean word.''])
         else Some (st, searchWord chatID argument (database st)))
      else if message = ''/random'' then
        (case randomWord r chatID (database st) of
           None \<Rightarrow> None
         | Some (None, evs) \<Rightarrow> Some (st, evs)
         | Some (Some words, evs) \<Rightarrow>
             Some (st\<lparr>currRandomWord := (currRandomWord st)(chatID \<mapsto> snd words)\<rparr>, evs))
      else if message = ''/delete'' then
        (if length argument = 0 then Some (st, [Sent chatID ''Please provide the Korean word.''])
         else Some (st\<lparr>database := fst (deleteWord chatID argument (database st))\<rparr>,
                    snd (deleteWord chatID argument (database st))))
      else if message = ''/list'' then Some (st, listWords chatID (database st))
      else if message = ''/clear'' then
        Some (st\<lparr>database := fst (clearWords chatID (database st))\<rparr>,
              snd (clearWords chatID (database st)))
      else
        (case currRandomWord st chatID of
           None \<Rightarrow> Some (st, [Logged (''Unknown command ['' @ message @ ''].'')])
         | Some answer \<Rightarrow>
             Some (st\<lparr>currRandomWord := (currRandomWord st)(chatID := None)\<rparr>,
                   [Sent chatID
                      (if ToLower message = ToLower answer then ''Your answer is correct''
                       else ''Your answer is incorrect. Correct answer is '' @ answer @ ''.'')])))"

text \<open>The loop over the updates as they arrive, each with its chat, text and \<open>r\<close>.\<close>

fun updates_loop :: "(nat \<times> int64 \<times> string) list \<Rightarrow> bot \<Rightarrow> (bot \<times> event list) option" where
  "updates_loop [] st = Some (st, [])"
| "updates_loop ((r, chatID, text) # updates) st =
     (case handle_update r chatID text st of
        None \<Rightarrow> None
      | Some (st', evs) \<Rightarrow>
          (case updates_loop updates st' of
             None \<Rightarrow> None
           | Some (st'', evs') \<Rightarrow> Some (st'', evs @ evs')))"

text \<open>The state \<open>main\<close> starts the loop in on a fresh database file.\<close>

definition fresh :: bot where
  "fresh = \<lparr>database = \<lparr>telegram = [], kquiz = []\<rparr>, currRandomWord = Map.empty\<rparr>"

text \<open>The messages the switch has a case for.\<close>

definition commands :: "string list" where
  "commands = [''/start'', ''/register'', ''/stop'', ''/unregister'', ''/add'', ''/search'',
               ''/random'', ''/delete'', ''/list'', ''/clear'']"

section \<open>Facts about the library functions and the store\<close>

lemma map_of_insert_key_same: "map_of (insert_key k v b) k = Some v"
  by (induction b) auto

lemma map_of_insert_key_other: "k' \<noteq> k \<Longrightarrow> map_of (insert_key k v b) k' = map_of b k'"
  by (induction b) auto

lemma map_of_filter_key_same: "map_of (filter (\<lambda>kv. fst kv \<noteq> k) b) k = None"
  by (induction b) auto

lemma map_of_filter_key_other:
  "k' \<noteq> k \<Longrightarrow> map_of (filter (\<lambda>kv. fst kv \<noteq> k) b) k' = map_of b k'"
  by (induction b) auto

lemma nat_dec_not_Nil: "nat_dec n \<noteq> []"
  by (subst nat_dec.simps) simp

lemma length_nat_dec: "0 < k \<Longrightarrow> n < 10 ^ k \<Longrightarrow> length (nat_dec n) \<le> k"
proof (induction k arbitrary: n)
  case 0
  then show ?case by simp
next
  case (Suc k)
  show ?case
  proof (cases "n < 10")
    case True
    then show ?thesis by (subst nat_dec.simps) simp
  next
    case False
    with Suc.prems have k: "0 < k" by (cases k) auto
    from Suc.prems have "n div 10 < 10 ^ k" by (simp add: less_mult_imp_div_less mult.commute)
    with Suc.IH k have "length (nat_dec (n div 10)) \<le> k" by blast
    with False show ?thesis by (subst nat_dec.simps) simp
  qed
qed

lemma fmt_d_not_Nil: "fmt_d chatID \<noteq> []"
  by (simp add: fmt_d_def nat_dec_not_Nil)

lemma length_fmt_d: "length (fmt_d chatID) \<le> 20"
proof -
  have up: "sint chatID < 2 ^ 63" using sint_lt [of chatID] by simp
  have lo: "- (2 ^ 63) \<le> sint chatID" using sint_ge [of chatID] by simp
  have "nat (sint chatID) < 10 ^ 19" using up by simp
  then have a: "length (nat_dec (nat (sint chatID))) \<le> 19" by (intro length_nat_dec) simp_all
  have "nat (- sint chatID) < 10 ^ 19" using lo by simp
  then have b: "length (nat_dec (nat (- sint chatID))) \<le> 19" by (intro length_nat_dec) simp_all
  show ?thesis using a b by (simp add: fmt_d_def)
qed

lemma Put_registration: "bucket_Put b (fmt_d chatID) (fmt_d chatID) = Inr (insert_key (fmt_d chatID) (fmt_d chatID) b)"
  using length_fmt_d [of chatID] fmt_d_not_Nil [of chatID]
  by (simp add: bucket_Put_def MaxKeySize_def MaxValueSize_def)

section \<open>Properties the specification states\<close>

text \<open>
  C6. \<open>Add\<close> on a chat that is not registered fails with \<open>ErrNotRegistered\<close> and
  leaves the database as it is, whether or not the key is already there (the check of
  the registration comes first). For a registered chat, unless the first \<open>Add\<close> of a
  word failed in the store, a second \<open>Add\<close> of the same word, with any translation,
  fails with \<open>ErrDuplicateWord\<close>.
\<close>

theorem Add_checks_registration_then_duplicate:
  "(\<not> IsRegistered chatID d \<longrightarrow> Add chatID word translation d = (Some ErrNotRegistered, d)) \<and>
   (IsRegistered chatID d \<and> fst (Add chatID word translation d) \<noteq> Some ErrDatabaseError \<longrightarrow>
      Add chatID word translation' (snd (Add chatID word translation d)) =
        (Some ErrDuplicateWord, snd (Add chatID word translation d)))"
  by (auto simp: Add_def IsRegistered_def IsAdded_def bucket_Get_def bucket_Put_def
        map_of_insert_key_same split: sum.splits if_splits)

theorem Add_checks_registration_then_duplicate_witness:
  "\<not> IsRegistered 42 \<lparr>telegram = [], kquiz = [(''42apple'', ''sagwa'')]\<rparr> \<and>
   Add 42 ''apple'' ''sagwa'' \<lparr>telegram = [], kquiz = [(''42apple'', ''sagwa'')]\<rparr> =
     (Some ErrNotRegistered, \<lparr>telegram = [], kquiz = [(''42apple'', ''sagwa'')]\<rparr>) \<and>
   IsRegistered 42 \<lparr>telegram = [(''42'', ''42'')], kquiz = []\<rparr> \<and>
   Add 42 ''apple'' ''sagwa'' \<lparr>telegram = [(''42'', ''42'')], kquiz = []\<rparr> =
     (None, \<lparr>telegram = [(''42'', ''42'')], kquiz = [(''42apple'', ''sagwa'')]\<rparr>) \<and>
   Add 42 ''apple'' ''pomme'' \<lparr>telegram = [(''42'', ''42'')], kquiz = [(''42apple'', ''sagwa'')]\<rparr> =
     (Some ErrDuplicateWord, \<lparr>telegram = [(''42'', ''42'')], kquiz = [(''42apple'', ''sagwa'')]\<rparr>)"
proof -
  let ?d0 = "\<lparr>telegram = [], kquiz = [(''42apple'', ''sagwa'')]\<rparr>"
  let ?d1 = "\<lparr>telegram = [(''42'', ''42'')], kquiz = []\<rparr>"
  have unreg: "\<not> IsRegistered 42 ?d0"
    by (simp add: IsRegistered_def bucket_Get_def)
  have reg: "IsRegistered 42 ?d1"
    by (simp add: IsRegistered_def bucket_Get_def fmt_d_def nat_dec.simps digit_def)
  have first: "Add 42 ''apple'' ''sagwa'' ?d1 =
      (None, \<lparr>telegram = [(''42'', ''42'')], kquiz = [(''42apple'', ''sagwa'')]\<rparr>)"
    by (simp add: Add_def IsRegistered_def IsAdded_def bucket_Get_def bucket_Put_def
          MaxKeySize_def MaxValueSize_def fmt_d_def nat_dec.simps digit_def)
  from Add_checks_registration_then_duplicate [of 42 ?d0 "''apple''" "''sagwa''"] unreg
  have a: "Add 42 ''apple'' ''sagwa'' ?d0 = (Some ErrNotRegistered, ?d0)" by blast
  from Add_checks_registration_then_duplicate [of 42 ?d1 "''apple''" "''sagwa''" "''pomme''"] reg first
  have b: "Add 42 ''apple'' ''pomme'' \<lparr>telegram = [(''42'', ''42'')], kquiz = [(''42apple'', ''sagwa'')]\<rparr> =
     (Some ErrDuplicateWord, \<lparr>telegram = [(''42'', ''42'')], kquiz = [(''42apple'', ''sagwa'')]\<rparr>)"
    by simp
  from unreg reg first a b show ?thesis by blast
qed

lemma Unregister_registered:
  "IsRegistered chatID d \<Longrightarrow>
     Unregister chatID d = (None, d\<lparr>telegram := filter (\<lambda>kv. fst kv \<noteq> fmt_d chatID) (telegram d)\<rparr>)"
  by (simp add: Unregister_def bucket_Delete_def)

lemma Register_unregistered:
  "\<not> IsRegistered chatID d \<Longrightarrow>
     Register chatID d = (None, d\<lparr>telegram := insert_key (fmt_d chatID) (fmt_d chatID) (telegram d)\<rparr>)"
  by (simp add: Register_def Put_registration)

lemma List_depends:
  "kquiz d' = kquiz d \<Longrightarrow> IsRegistered chatID d' = IsRegistered chatID d \<Longrightarrow>
     List chatID d' = List chatID d"
  by (simp add: List_def)

text \<open>
  C9. \<open>Unregister\<close> writes to the bucket of registrants only: the bucket of words is
  the same after it, for whatever chat and database. For a registered chat the call
  succeeds and the chat is no longer registered; registering it again succeeds, the
  words are still all there and \<open>List\<close> returns what it returned before.
\<close>

theorem Unregister_leaves_words:
  "kquiz (snd (Unregister chatID d)) = kquiz d \<and>
   (IsRegistered chatID d \<longrightarrow>
      fst (Unregister chatID d) = None \<and>
      \<not> IsRegistered chatID (snd (Unregister chatID d)) \<and>
      fst (Register chatID (snd (Unregister chatID d))) = None \<and>
      kquiz (snd (Register chatID (snd (Unregister chatID d)))) = kquiz d \<and>
      List chatID (snd (Register chatID (snd (Unregister chatID d)))) = List chatID d)"
proof (intro conjI impI)
  show "kquiz (snd (Unregister chatID d)) = kquiz d"
    by (simp add: Unregister_def bucket_Delete_def)
next
  assume reg: "IsRegistered chatID d"
  let ?d1 = "d\<lparr>telegram := filter (\<lambda>kv. fst kv \<noteq> fmt_d chatID) (telegram d)\<rparr>"
  let ?d2 = "?d1\<lparr>telegram := insert_key (fmt_d chatID) (fmt_d chatID) (telegram ?d1)\<rparr>"
  have u: "Unregister chatID d = (None, ?d1)"
    using reg by (rule Unregister_registered)
  have gone: "\<not> IsRegistered chatID ?d1"
    by (simp add: IsRegistered_def bucket_Get_def map_of_filter_key_same)
  have r: "Register chatID ?d1 = (None, ?d2)"
    using gone by (rule Register_unregistered)
  have again: "IsRegistered chatID ?d2"
    by (simp add: IsRegistered_def bucket_Get_def map_of_insert_key_same)
  show "fst (Unregister chatID d) = None" by (simp add: u)
  show "\<not> IsRegistered chatID (snd (Unregister chatID d))" using gone by (simp add: u)
  show "fst (Register chatID (snd (Unregister chatID d))) = None" by (simp add: u r)
  show "kquiz (snd (Register chatID (snd (Unregister chatID d)))) = kquiz d" by (simp add: u r)
  have "List chatID ?d2 = List chatID d"
    using again reg by (intro List_depends) simp_all
  then show "List chatID (snd (Register chatID (snd (Unregister chatID d)))) = List chatID d"
    by (simp add: u r)
qed

theorem Unregister_leaves_words_witness:
  "IsRegistered 42 \<lparr>telegram = [(''42'', ''42'')], kquiz = [(''42apple'', ''sagwa''), (''7pear'', ''bae'')]\<rparr> \<and>
   Unregister 42 \<lparr>telegram = [(''42'', ''42'')], kquiz = [(''42apple'', ''sagwa''), (''7pear'', ''bae'')]\<rparr> =
     (None, \<lparr>telegram = [], kquiz = [(''42apple'', ''sagwa''), (''7pear'', ''bae'')]\<rparr>) \<and>
   kquiz (snd (Unregister 42 \<lparr>telegram = [(''42'', ''42'')], kquiz = [(''42apple'', ''sagwa''), (''7pear'', ''bae'')]\<rparr>)) =
     [(''42apple'', ''sagwa''), (''7pear'', ''bae'')] \<and>
   List 42 (snd (Register 42 (snd (Unregister 42
       \<lparr>telegram = [(''42'', ''42'')], kquiz = [(''42apple'', ''sagwa''), (''7pear'', ''bae'')]\<rparr>)))) =
     Inr [(''apple'', ''sagwa'')]"
proof -
  let ?d = "\<lparr>telegram = [(''42'', ''42'')], kquiz = [(''42apple'', ''sagwa''), (''7pear'', ''bae'')]\<rparr>"
  have reg: "IsRegistered 42 ?d"
    by (simp add: IsRegistered_def bucket_Get_def fmt_d_def nat_dec.simps digit_def)
  have u: "Unregister 42 ?d = (None, \<lparr>telegram = [], kquiz = [(''42apple'', ''sagwa''), (''7pear'', ''bae'')]\<rparr>)"
    by (simp add: Unregister_def IsRegistered_def bucket_Get_def bucket_Delete_def fmt_d_def
          nat_dec.simps digit_def)
  have l: "List 42 ?d = Inr [(''apple'', ''sagwa'')]"
    by (simp add: List_def IsRegistered_def bucket_Get_def fmt_d_def nat_dec.simps digit_def
          HasPrefix_def)
  from Unregister_leaves_words [of 42 ?d] reg
  have "kquiz (snd (Unregister 42 ?d)) = kquiz ?d"
    and "List 42 (snd (Register 42 (snd (Unregister 42 ?d)))) = List 42 ?d"
    by blast+
  with reg u l show ?thesis by simp
qed

text \<open>
  C5. \<open>Random\<close> never panics. It fails with \<open>ErrWordNotFound\<close> only when \<open>List\<close>
  failed so, and it fails with the error of \<open>List\<close> whenever \<open>List\<close> fails. When
  \<open>List\<close> succeeds its result is not empty, the index \<open>rand.Intn\<close> yields is within
  it, and \<open>Random\<close> returns the pair at that index, an element of the result.
\<close>

theorem Random_picks_from_List:
  "Random r chatID d \<noteq> None \<and>
   (Random r chatID d = Some (Inl ErrWordNotFound) \<longrightarrow> List chatID d = Inl ErrWordNotFound) \<and>
   (\<forall>err. List chatID d = Inl err \<longrightarrow> Random r chatID d = Some (Inl err)) \<and>
   (\<forall>items. List chatID d = Inr items \<longrightarrow>
      items \<noteq> [] \<and> Intn r (length items) = Some (r mod length items) \<and>
      r mod length items < length items \<and>
      Random r chatID d = Some (Inr (items ! (r mod length items))) \<and>
      items ! (r mod length items) \<in> set items)"
  by (auto simp: Random_def List_def Intn_def Let_def split: sum.splits if_splits)

theorem Random_picks_from_List_witness:
  "List 42 \<lparr>telegram = [(''42'', ''42'')], kquiz = [(''42apple'', ''sagwa''), (''42pear'', ''bae'')]\<rparr> =
     Inr [(''apple'', ''sagwa''), (''pear'', ''bae'')] \<and>
   Random 5 42 \<lparr>telegram = [(''42'', ''42'')], kquiz = [(''42apple'', ''sagwa''), (''42pear'', ''bae'')]\<rparr> =
     Some (Inr (''pear'', ''bae'')) \<and>
   List 42 \<lparr>telegram = [(''42'', ''42'')], kquiz = []\<rparr> = Inl ErrWordNotFound \<and>
   Random 5 42 \<lparr>telegram = [(''42'', ''42'')], kquiz = []\<rparr> = Some (Inl ErrWordNotFound)"
proof -
  let ?d = "\<lparr>telegram = [(''42'', ''42'')], kquiz = [(''42apple'', ''sagwa''), (''42pear'', ''bae'')]\<rparr>"
  let ?e = "\<lparr>telegram = [(''42'', ''42'')], kquiz = []\<rparr>"
  have l: "List 42 ?d = Inr [(''apple'', ''sagwa''), (''pear'', ''bae'')]"
    by (simp add: List_def IsRegistered_def bucket_Get_def fmt_d_def nat_dec.simps digit_def
          HasPrefix_def)
  have e: "List 42 ?e = Inl ErrWordNotFound"
    by (simp add: List_def IsRegistered_def bucket_Get_def fmt_d_def nat_dec.simps digit_def)
  from Random_picks_from_List [of 5 42 ?d] l
  have a: "Random 5 42 ?d = Some (Inr ([(''apple'', ''sagwa''), (''pear'', ''bae'')] !
      (5 mod length [(''apple'', ''sagwa''), (''pear'', ''bae'')])))"
    by blast
  have idx: "5 mod length [(''apple'', ''sagwa''), (''pear'', ''bae'')] = 1"
    by (simp add: eval_nat_numeral mod_Suc)
  from Random_picks_from_List [of 5 42 ?e] e
  have b: "Random 5 42 ?e = Some (Inl ErrWordNotFound)"
    by blast
  from l e a b show ?thesis unfolding idx by simp
qed

lemma Random_no_panic: "Random r chatID d \<noteq> None"
  by (auto simp: Random_def List_def Intn_def Let_def split: sum.splits if_splits)

lemma handle_update_random:
  "fst (split_message text) = ''/random'' \<Longrightarrow>
     handle_update r chatID text st =
       (case randomWord r chatID (database st) of
          None \<Rightarrow> None
        | Some (None, evs) \<Rightarrow> Some (st, evs)
        | Some (Some words, evs) \<Rightarrow>
            Some (st\<lparr>currRandomWord := (currRandomWord st)(chatID \<mapsto> snd words)\<rparr>, evs))"
  by (simp add: handle_update_def)

lemma handle_update_answer:
  "fst (split_message text) \<notin> set commands \<Longrightarrow>
     handle_update r chatID text st =
       (case currRandomWord st chatID of
          None \<Rightarrow> Some (st, [Logged (''Unknown command ['' @ fst (split_message text) @ ''].'')])
        | Some answer \<Rightarrow>
            Some (st\<lparr>currRandomWord := (currRandomWord st)(chatID := None)\<rparr>,
                  [Sent chatID
                     (if ToLower (fst (split_message text)) = ToLower answer
                      then ''Your answer is correct''
                      else ''Your answer is incorrect. Correct answer is '' @ answer @ ''.'')]))"
  by (simp add: handle_update_def commands_def Let_def)

text \<open>
  C7. For a message that the loop takes as \<open>/random\<close>: the call of \<open>Random\<close> does not
  panic; when it fails, for whatever reason, the only reply is the failure with its
  reason and the whole state, the pending answers with it, is as before; when it
  succeeds the reply asks for the word and the translation becomes the chat's pending
  answer.
\<close>

theorem random_failure_keeps_pending_answer:
  assumes "fst (split_message text) = ''/random''"
  shows "Random r chatID (database st) \<noteq> None \<and>
    (\<forall>err. Random r chatID (database st) = Some (Inl err) \<longrightarrow>
       handle_update r chatID text st =
         Some (st, [Sent chatID (''Get random word failed. '' @ Error err @ ''.'')])) \<and>
    (\<forall>word translation. Random r chatID (database st) = Some (Inr (word, translation)) \<longrightarrow>
       handle_update r chatID text st =
         Some (st\<lparr>currRandomWord := (currRandomWord st)(chatID \<mapsto> translation)\<rparr>,
               [Sent chatID (''What is translation for: '' @ word)]))"
  using assms by (simp add: handle_update_random randomWord_def Random_no_panic)

theorem random_failure_keeps_pending_answer_witness:
  "fst (split_message ''/random'') = ''/random'' \<and>
   handle_update 7 42 ''/random''
     \<lparr>database = \<lparr>telegram = [(''42'', ''42'')], kquiz = []\<rparr>,
        currRandomWord = [42 \<mapsto> ''bae'']\<rparr> =
     Some (\<lparr>database = \<lparr>telegram = [(''42'', ''42'')], kquiz = []\<rparr>,
              currRandomWord = [42 \<mapsto> ''bae'']\<rparr>,
           [Sent 42 ''Get random word failed. word not found.'']) \<and>
   handle_update 7 42 ''/random''
     \<lparr>database = \<lparr>telegram = [(''42'', ''42'')], kquiz = [(''42apple'', ''sagwa'')]\<rparr>,
        currRandomWord = [42 \<mapsto> ''bae'']\<rparr> =
     Some (\<lparr>database = \<lparr>telegram = [(''42'', ''42'')], kquiz = [(''42apple'', ''sagwa'')]\<rparr>,
              currRandomWord = [42 \<mapsto> ''sagwa'']\<rparr>,
           [Sent 42 ''What is translation for: apple''])"
proof -
  let ?a = "\<lparr>database = \<lparr>telegram = [(''42'', ''42'')], kquiz = []\<rparr>,
              currRandomWord = [42 \<mapsto> ''bae'']\<rparr>"
  let ?b = "\<lparr>database = \<lparr>telegram = [(''42'', ''42'')], kquiz = [(''42apple'', ''sagwa'')]\<rparr>,
              currRandomWord = [42 \<mapsto> ''bae'']\<rparr>"
  have m: "fst (split_message ''/random'') = ''/random''"
    by (simp add: split_message_def)
  have ra: "Random 7 42 (database ?a) = Some (Inl ErrWordNotFound)"
    by (simp add: Random_def List_def IsRegistered_def bucket_Get_def fmt_d_def nat_dec.simps
          digit_def)
  have rb: "Random 7 42 (database ?b) = Some (Inr (''apple'', ''sagwa''))"
    by (simp add: Random_def List_def IsRegistered_def bucket_Get_def fmt_d_def nat_dec.simps
          digit_def HasPrefix_def Intn_def)
  from random_failure_keeps_pending_answer [OF m, of 7 42 ?a] ra
  have a: "handle_update 7 42 ''/random'' ?a =
      Some (?a, [Sent 42 (''Get random word failed. '' @ Error ErrWordNotFound @ ''.'')])"
    by blast
  from random_failure_keeps_pending_answer [OF m, of 7 42 ?b] rb
  have b: "handle_update 7 42 ''/random'' ?b =
      Some (?b\<lparr>currRandomWord := (currRandomWord ?b)(42 \<mapsto> ''sagwa'')\<rparr>,
            [Sent 42 (''What is translation for: '' @ ''apple'')])"
    by blast
  from m a b show ?thesis by simp
qed

text \<open>
  C4. A chat has a pending answer and sends a message that is no command: the chat's
  entry in \<open>currRandomWord\<close> is removed, whether the answer is judged correct or not,
  and nothing else changes. A further message of the chat that is no command is only
  logged as an unknown command: nothing is sent and the state stays as it is.
\<close>

theorem answer_consumes_pending_entry:
  assumes "fst (split_message text) \<notin> set commands"
    and "currRandomWord st chatID = Some answer"
  shows "handle_update r chatID text st =
      Some (st\<lparr>currRandomWord := (currRandomWord st)(chatID := None)\<rparr>,
            [Sent chatID
               (if ToLower (fst (split_message text)) = ToLower answer
                then ''Your answer is correct''
                else ''Your answer is incorrect. Correct answer is '' @ answer @ ''.'')]) \<and>
    (\<forall>r' text'. fst (split_message text') \<notin> set commands \<longrightarrow>
       handle_update r' chatID text' (st\<lparr>currRandomWord := (currRandomWord st)(chatID := None)\<rparr>) =
         Some (st\<lparr>currRandomWord := (currRandomWord st)(chatID := None)\<rparr>,
               [Logged (''Unknown command ['' @ fst (split_message text') @ ''].'')]) \<and>
       updates_loop [(r, chatID, text), (r', chatID, text')] st =
         Some (st\<lparr>currRandomWord := (currRandomWord st)(chatID := None)\<rparr>,
               [Sent chatID
                  (if ToLower (fst (split_message text)) = ToLower answer
                   then ''Your answer is correct''
                   else ''Your answer is incorrect. Correct answer is '' @ answer @ ''.''),
                Logged (''Unknown command ['' @ fst (split_message text') @ ''].'')]))"
  using assms by (simp add: handle_update_answer)

theorem answer_consumes_pending_entry_witness:
  "fst (split_message ''Sagwa'') \<notin> set commands \<and>
   fst (split_message ''hello there'') \<notin> set commands \<and>
   updates_loop [(0, 42, ''Sagwa''), (0, 42, ''hello there'')]
     \<lparr>database = \<lparr>telegram = [], kquiz = []\<rparr>, currRandomWord = [42 \<mapsto> ''sagwa'']\<rparr> =
     Some (\<lparr>database = \<lparr>telegram = [], kquiz = []\<rparr>, currRandomWord = Map.empty\<rparr>,
           [Sent 42 ''Your answer is correct'', Logged ''Unknown command [hello].'']) \<and>
   handle_update 0 42 ''bae''
     \<lparr>database = \<lparr>telegram = [], kquiz = []\<rparr>, currRandomWord = [42 \<mapsto> ''sagwa'']\<rparr> =
     Some (\<lparr>database = \<lparr>telegram = [], kquiz = []\<rparr>, currRandomWord = Map.empty\<rparr>,
           [Sent 42 ''Your answer is incorrect. Correct answer is sagwa.''])"
proof -
  let ?s = "\<lparr>database = \<lparr>telegram = [], kquiz = []\<rparr>, currRandomWord = [42 \<mapsto> ''sagwa'']\<rparr>"
  have m1: "fst (split_message ''Sagwa'') \<notin> set commands"
    by (simp add: split_message_def commands_def)
  have m2: "fst (split_message ''hello there'') \<notin> set commands"
    by (simp add: split_message_def commands_def)
  have m3: "fst (split_message ''bae'') \<notin> set commands"
    by (simp add: split_message_def commands_def)
  have p: "currRandomWord ?s 42 = Some ''sagwa''"
    by simp
  from answer_consumes_pending_entry [OF m1 p, of 0] m2
  have a: "updates_loop [(0, 42, ''Sagwa''), (0, 42, ''hello there'')] ?s =
      Some (?s\<lparr>currRandomWord := (currRandomWord ?s)(42 := None)\<rparr>,
            [Sent 42
               (if ToLower (fst (split_message ''Sagwa'')) = ToLower ''sagwa''
                then ''Your answer is correct''
                else ''Your answer is incorrect. Correct answer is '' @ ''sagwa'' @ ''.''),
             Logged (''Unknown command ['' @ fst (split_message ''hello there'') @ ''].'')])"
    by blast
  from answer_consumes_pending_entry [OF m3 p, of 0]
  have b: "handle_update 0 42 ''bae'' ?s =
      Some (?s\<lparr>currRandomWord := (currRandomWord ?s)(42 := None)\<rparr>,
            [Sent 42
               (if ToLower (fst (split_message ''bae'')) = ToLower ''sagwa''
                then ''Your answer is correct''
                else ''Your answer is incorrect. Correct answer is '' @ ''sagwa'' @ ''.'')])"
    by blast
  have e: "fst (split_message ''Sagwa'') = ''Sagwa''" "fst (split_message ''hello there'') = ''hello''"
    "fst (split_message ''bae'') = ''bae''"
    by (simp_all add: split_message_def)
  have l: "ToLower ''Sagwa'' = ''sagwa''" "ToLower ''sagwa'' = ''sagwa''" "ToLower ''bae'' = ''bae''"
    by (simp_all add: ToLower_def lower_byte_def)
  from m1 m2 a b show ?thesis unfolding e l by simp
qed

text \<open>
  C10. A registered chat with a pending answer unregisters, by \<open>/stop\<close> or by
  \<open>/unregister\<close>: it is no longer registered, its pending answer is kept, and its next
  message that is no command is still judged against that answer, after which the
  entry is removed. The branch for answers never looks at the registration.
\<close>

theorem answer_judged_after_unregister:
  assumes "currRandomWord st chatID = Some answer"
    and "IsRegistered chatID (database st)"
    and "fst (split_message leave) = ''/stop'' \<or> fst (split_message leave) = ''/unregister''"
    and "fst (split_message text) \<notin> set commands"
  shows "handle_update r chatID leave st =
      Some (st\<lparr>database := snd (Unregister chatID (database st))\<rparr>,
            [Sent chatID
               ''You have been successfully unregistered. You will not receive any future updates.'']) \<and>
    \<not> IsRegistered chatID (snd (Unregister chatID (database st))) \<and>
    handle_update r' chatID text (st\<lparr>database := snd (Unregister chatID (database st))\<rparr>) =
      Some (st\<lparr>database := snd (Unregister chatID (database st)),
                currRandomWord := (currRandomWord st)(chatID := None)\<rparr>,
            [Sent chatID
               (if ToLower (fst (split_message text)) = ToLower answer
                then ''Your answer is correct''
                else ''Your answer is incorrect. Correct answer is '' @ answer @ ''.'')])"
proof (intro conjI)
  have u: "Unregister chatID (database st) =
      (None, (database st)\<lparr>telegram := filter (\<lambda>kv. fst kv \<noteq> fmt_d chatID) (telegram (database st))\<rparr>)"
    using assms(2) by (rule Unregister_registered)
  show "handle_update r chatID leave st =
      Some (st\<lparr>database := snd (Unregister chatID (database st))\<rparr>,
            [Sent chatID
               ''You have been successfully unregistered. You will not receive any future updates.''])"
    using assms(3) by (auto simp: handle_update_def Let_def unregisterUser_def u)
  show "\<not> IsRegistered chatID (snd (Unregister chatID (database st)))"
    by (simp add: u IsRegistered_def bucket_Get_def map_of_filter_key_same)
  show "handle_update r' chatID text (st\<lparr>database := snd (Unregister chatID (database st))\<rparr>) =
      Some (st\<lparr>database := snd (Unregister chatID (database st)),
                currRandomWord := (currRandomWord st)(chatID := None)\<rparr>,
            [Sent chatID
               (if ToLower (fst (split_message text)) = ToLower answer
                then ''Your answer is correct''
                else ''Your answer is incorrect. Correct answer is '' @ answer @ ''.'')])"
    using assms(1,4) by (simp add: handle_update_answer)
qed

theorem answer_judged_after_unregister_witness:
  "currRandomWord \<lparr>database = \<lparr>telegram = [(''42'', ''42'')], kquiz = [(''42apple'', ''sagwa'')]\<rparr>,
                   currRandomWord = [42 \<mapsto> ''sagwa'']\<rparr> 42 = Some ''sagwa'' \<and>
   IsRegistered 42 \<lparr>telegram = [(''42'', ''42'')], kquiz = [(''42apple'', ''sagwa'')]\<rparr> \<and>
   fst (split_message ''/unregister'') = ''/unregister'' \<and>
   fst (split_message ''SAGWA'') \<notin> set commands \<and>
   updates_loop [(0, 42, ''/unregister''), (0, 42, ''SAGWA'')]
     \<lparr>database = \<lparr>telegram = [(''42'', ''42'')], kquiz = [(''42apple'', ''sagwa'')]\<rparr>,
        currRandomWord = [42 \<mapsto> ''sagwa'']\<rparr> =
     Some (\<lparr>database = \<lparr>telegram = [], kquiz = [(''42apple'', ''sagwa'')]\<rparr>,
              currRandomWord = Map.empty\<rparr>,
           [Sent 42 ''You have been successfully unregistered. You will not receive any future updates.'',
            Sent 42 ''Your answer is correct''])"
proof -
  let ?d = "\<lparr>telegram = [(''42'', ''42'')], kquiz = [(''42apple'', ''sagwa'')]\<rparr>"
  let ?s = "\<lparr>database = ?d, currRandomWord = [42 \<mapsto> ''sagwa'']\<rparr>"
  have p: "currRandomWord ?s 42 = Some ''sagwa''"
    by simp
  have reg: "IsRegistered 42 (database ?s)"
    by (simp add: IsRegistered_def bucket_Get_def fmt_d_def nat_dec.simps digit_def)
  have c: "fst (split_message ''/unregister'') = ''/unregister''"
    by (simp add: split_message_def)
  have m: "fst (split_message ''SAGWA'') \<notin> set commands"
    by (simp add: split_message_def commands_def)
  have u: "snd (Unregister 42 ?d) = \<lparr>telegram = [], kquiz = [(''42apple'', ''sagwa'')]\<rparr>"
    by (simp add: Unregister_def IsRegistered_def bucket_Get_def bucket_Delete_def fmt_d_def
          nat_dec.simps digit_def)
  have e: "fst (split_message ''SAGWA'') = ''SAGWA''"
    by (simp add: split_message_def)
  have l: "ToLower ''SAGWA'' = ''sagwa''" "ToLower ''sagwa'' = ''sagwa''"
    by (simp_all add: ToLower_def lower_byte_def)
  from answer_judged_after_unregister [OF p reg disjI2 [OF c] m, of 0 0]
  have "updates_loop [(0, 42, ''/unregister''), (0, 42, ''SAGWA'')] ?s =
      Some (?s\<lparr>database := snd (Unregister 42 (database ?s)),
                currRandomWord := (currRandomWord ?s)(42 := None)\<rparr>,
            [Sent 42 ''You have been successfully unregistered. You will not receive any future updates.'',
             Sent 42
               (if ToLower (fst (split_message ''SAGWA'')) = ToLower ''sagwa''
                then ''Your answer is correct''
                else ''Your answer is incorrect. Correct answer is '' @ ''sagwa'' @ ''.'')])"
    by simp
  with p reg c m show ?thesis unfolding e l by (simp add: u)
qed

lemma Index_space_None: "Index_space s = None \<longleftrightarrow> CHR '' '' \<notin> set s"
  by (induction s) (auto split: option.splits)

lemma Index_space_Some:
  "Index_space s = Some i \<Longrightarrow>
     take i s = takeWhile (\<lambda>c. c \<noteq> CHR '' '') s \<and>
     drop (Suc i) s = tl (dropWhile (\<lambda>c. c \<noteq> CHR '' '') s)"
  by (induction s arbitrary: i) (auto split: option.splits if_splits)





section \<open>Where the code departs from the specification\<close>

text \<open>
  A key of the bucket of words is the chat's decimal string with the word right after
  it, and \<open>Clear\<close> and \<open>List\<close> take every key that starts with the chat's string. So
  \<open>Clear\<close> keeps exactly the keys without that prefix, and no key of a chat whose
  string starts with the clearing chat's string survives.
\<close>

lemma Clear_loop_filter:
  "Clear_loop chatIDStr b = Inr (filter (\<lambda>kv. \<not> HasPrefix (fst kv) chatIDStr) b)"
  by (induction chatIDStr b rule: Clear_loop.induct) simp_all

lemma Clear_registered:
  "IsRegistered chatID d \<Longrightarrow>
     Clear chatID d = (None, d\<lparr>kquiz := filter (\<lambda>kv. \<not> HasPrefix (fst kv) (fmt_d chatID)) (kquiz d)\<rparr>)"
  by (simp add: Clear_def Clear_loop_filter)

lemma HasPrefix_trans: "HasPrefix k q \<Longrightarrow> HasPrefix q p \<Longrightarrow> HasPrefix k p"
  by (auto simp: HasPrefix_def) (metis append_eq_conv_conj append_take_drop_id take_append take_take length_take)

lemma Clear_takes_longer_ids:
  assumes "IsRegistered c d" and "HasPrefix (fmt_d c') (fmt_d c)"
  shows "bucket_Get (kquiz (snd (Clear c d))) (fmt_d c' @ word) = None"
proof -
  have "HasPrefix (fmt_d c' @ word) (fmt_d c')" by (simp add: HasPrefix_def)
  from HasPrefix_trans [OF this assms(2)] have p: "HasPrefix (fmt_d c' @ word) (fmt_d c)" .
  have "fmt_d c' @ word \<notin> fst ` set (filter (\<lambda>kv. \<not> HasPrefix (fst kv) (fmt_d c)) (kquiz d))"
    using p by auto
  then show ?thesis
    using assms(1) by (simp add: Clear_registered bucket_Get_def map_of_eq_None_iff)
qed

lemma List_loop_map:
  "List_loop chatIDStr b wordMap =
     wordMap @ map (\<lambda>kv. (ReplaceAll (fst kv) chatIDStr [], snd kv))
                   (filter (\<lambda>kv. HasPrefix (fst kv) chatIDStr) b)"
  by (induction chatIDStr b wordMap rule: List_loop.induct) simp_all

text \<open>
  C1. The chats 1 and 12 register and chat 12 adds the word \<open>apple\<close>, which \<open>Search\<close>
  finds. \<open>Clear\<close> for chat 1 succeeds and removes the key \<open>12apple\<close>: the word of chat
  12 is gone, and \<open>Search\<close> for it fails with \<open>ErrWordNotFound\<close>.
\<close>

theorem Clear_removes_words_of_another_chat:
  "snd (Add 12 ''apple'' ''sagwa'' (snd (Register 12 (snd (Register 1 \<lparr>telegram = [], kquiz = []\<rparr>))))) =
     \<lparr>telegram = [(''1'', ''1''), (''12'', ''12'')], kquiz = [(''12apple'', ''sagwa'')]\<rparr> \<and>
   Search 12 ''apple'' \<lparr>telegram = [(''1'', ''1''), (''12'', ''12'')], kquiz = [(''12apple'', ''sagwa'')]\<rparr> =
     Inr ''sagwa'' \<and>
   Clear 1 \<lparr>telegram = [(''1'', ''1''), (''12'', ''12'')], kquiz = [(''12apple'', ''sagwa'')]\<rparr> =
     (None, \<lparr>telegram = [(''1'', ''1''), (''12'', ''12'')], kquiz = []\<rparr>) \<and>
   Search 12 ''apple'' \<lparr>telegram = [(''1'', ''1''), (''12'', ''12'')], kquiz = []\<rparr> =
     Inl ErrWordNotFound"
  by (simp add: Register_def Add_def Search_def Clear_def IsRegistered_def IsAdded_def
        bucket_Get_def bucket_Put_def MaxKeySize_def MaxValueSize_def fmt_d_def nat_dec.simps
        digit_def HasPrefix_def)

text \<open>
  C2. \<open>List\<close> removes every occurrence of the chat's string from the key, not only the
  one in front. Chat 7 adds the word \<open>7up\<close>; \<open>List\<close> returns it as \<open>up\<close>. And a key of
  chat 12 is listed for chat 1, which has added no word: \<open>List\<close> returns a pair where
  the chat's own result is empty.
\<close>

theorem List_returns_mangled_word:
  "Add 7 ''7up'' ''chilsung'' \<lparr>telegram = [(''7'', ''7'')], kquiz = []\<rparr> =
     (None, \<lparr>telegram = [(''7'', ''7'')], kquiz = [(''77up'', ''chilsung'')]\<rparr>) \<and>
   List 7 \<lparr>telegram = [(''7'', ''7'')], kquiz = [(''77up'', ''chilsung'')]\<rparr> =
     Inr [(''up'', ''chilsung'')] \<and>
   List 1 \<lparr>telegram = [(''1'', ''1''), (''12'', ''12'')], kquiz = [(''12apple'', ''sagwa'')]\<rparr> =
     Inr [(''2apple'', ''sagwa'')]"
  by (simp add: Add_def List_def IsRegistered_def IsAdded_def bucket_Get_def bucket_Put_def
        MaxKeySize_def MaxValueSize_def fmt_d_def nat_dec.simps digit_def HasPrefix_def)

text \<open>
  The text before the first space is all that is compared with the pending answer, so
  an answer that has a space in it matches no message: whatever the chat sends that is
  no command, the reply is that the answer is incorrect.
\<close>

lemma lower_byte_space: "lower_byte c = CHR '' '' \<longleftrightarrow> c = CHR '' ''"
  by (auto simp: lower_byte_def split: option.splits if_splits)

lemma space_in_ToLower: "CHR '' '' \<in> set (ToLower s) \<longleftrightarrow> CHR '' '' \<in> set s"
proof -
  have "CHR '' '' \<in> set (ToLower s) \<longleftrightarrow> (\<exists>c\<in>set s. lower_byte c = CHR '' '')"
    unfolding ToLower_def by (simp add: image_iff) metis
  then show ?thesis by (simp add: lower_byte_space)
qed

lemma message_has_no_space: "CHR '' '' \<notin> set (fst (split_message s))"
proof (cases "Index_space s")
  case None
  then have "CHR '' '' \<notin> set s" by (simp add: Index_space_None)
  with None show ?thesis by (simp add: split_message_def)
next
  case (Some i)
  from Index_space_Some [OF Some] have "take i s = takeWhile (\<lambda>c. c \<noteq> CHR '' '') s" by simp
  moreover have "CHR '' '' \<notin> set (takeWhile (\<lambda>c. c \<noteq> CHR '' '') s)"
    by (auto dest: set_takeWhileD)
  ultimately show ?thesis by (simp add: split_message_def Some)
qed

lemma answer_with_space_never_matched:
  "CHR '' '' \<in> set answer \<Longrightarrow> ToLower (fst (split_message s)) \<noteq> ToLower answer"
  using message_has_no_space [of s] space_in_ToLower [of answer]
    space_in_ToLower [of "fst (split_message s)"] by metis

lemma answer_with_space_always_incorrect:
  assumes "currRandomWord st chatID = Some answer"
    and "CHR '' '' \<in> set answer"
    and "fst (split_message s) \<notin> set commands"
  shows "handle_update r chatID s st =
    Some (st\<lparr>currRandomWord := (currRandomWord st)(chatID := None)\<rparr>,
          [Sent chatID (''Your answer is incorrect. Correct answer is '' @ answer @ ''.'')])"
  using assms by (simp add: handle_update_answer answer_with_space_never_matched)

text \<open>
  C3. On a fresh database chat 42 registers, adds \<open>gomawo\<close> with the translation
  \<open>thank you\<close>, and asks for a random word. It then sends the translation exactly as
  it is stored, and the reply is that the answer is incorrect.
\<close>

theorem exact_answer_with_space_judged_incorrect:
  "map_option snd
     (updates_loop [(0, 42, ''/register''), (0, 42, ''/add gomawo thank you''),
                    (0, 42, ''/random''), (0, 42, ''thank you'')] fresh) =
     Some [Sent 42 ''Thanks for your registration.'',
           Sent 42 ''New word successfully added. gomawo -> thank you.'',
           Sent 42 ''What is translation for: gomawo'',
           Sent 42 ''Your answer is incorrect. Correct answer is thank you.'']"
  by (simp add: fresh_def handle_update_def split_message_def SplitN2_def registerUser_def
        addWord_def randomWord_def Register_def Add_def Random_def List_def Intn_def
        IsRegistered_def IsAdded_def bucket_Get_def bucket_Put_def MaxKeySize_def
        MaxValueSize_def fmt_d_def nat_dec.simps digit_def HasPrefix_def ToLower_def
        lower_byte_def)

end
